theory Spec2Isabelle
  imports Complex_Main "HOL-Library.Word"
begin

section \<open>float64 values\<close>

text \<open>
  Go's \<^verbatim>\<open>float64\<close> is modelled by its finite values as real numbers together with
  the three special values of IEEE 754. Rounding to the nearest double, overflow of a
  finite result and the sign of zero are not modelled: a finite result is the exact real
  one, and the single zero behaves as \<^verbatim>\<open>+0\<close>. Division and comparison follow IEEE 754
  as Go implements them: no float operation panics.
\<close>

datatype f64 = Fin real | PInf | NInf | NaN

fun f64_div :: "f64 \<Rightarrow> f64 \<Rightarrow> f64" where
  "f64_div NaN y = NaN"
| "f64_div (Fin a) NaN = NaN"
| "f64_div PInf NaN = NaN"
| "f64_div NInf NaN = NaN"
| "f64_div (Fin a) (Fin b) =
     (if b \<noteq> 0 then Fin (a / b)
      else if a = 0 then NaN
      else if 0 < a then PInf else NInf)"
| "f64_div (Fin a) PInf = Fin 0"
| "f64_div (Fin a) NInf = Fin 0"
| "f64_div PInf (Fin b) = (if 0 \<le> b then PInf else NInf)"
| "f64_div NInf (Fin b) = (if 0 \<le> b then NInf else PInf)"
| "f64_div PInf PInf = NaN"
| "f64_div PInf NInf = NaN"
| "f64_div NInf PInf = NaN"
| "f64_div NInf NInf = NaN"

fun f64_sub :: "f64 \<Rightarrow> f64 \<Rightarrow> f64" where
  "f64_sub NaN y = NaN"
| "f64_sub (Fin a) NaN = NaN"
| "f64_sub PInf NaN = NaN"
| "f64_sub NInf NaN = NaN"
| "f64_sub (Fin a) (Fin b) = Fin (a - b)"
| "f64_sub (Fin a) PInf = NInf"
| "f64_sub (Fin a) NInf = PInf"
| "f64_sub PInf (Fin b) = PInf"
| "f64_sub PInf NInf = PInf"
| "f64_sub PInf PInf = NaN"
| "f64_sub NInf (Fin b) = NInf"
| "f64_sub NInf PInf = NInf"
| "f64_sub NInf NInf = NaN"

text \<open>\<^verbatim>\<open>x >= y\<close>: false as soon as one side is NaN.\<close>

fun f64_ge :: "f64 \<Rightarrow> f64 \<Rightarrow> bool" where
  "f64_ge NaN y = False"
| "f64_ge (Fin a) NaN = False"
| "f64_ge PInf NaN = False"
| "f64_ge NInf NaN = False"
| "f64_ge (Fin a) (Fin b) = (b \<le> a)"
| "f64_ge (Fin a) PInf = False"
| "f64_ge (Fin a) NInf = True"
| "f64_ge PInf (Fin b) = True"
| "f64_ge PInf PInf = True"
| "f64_ge PInf NInf = True"
| "f64_ge NInf (Fin b) = False"
| "f64_ge NInf PInf = False"
| "f64_ge NInf NInf = True"

text \<open>\<^verbatim>\<open>x < y\<close>, the comparison the specification words the skipped tick with.\<close>

fun f64_lt :: "f64 \<Rightarrow> f64 \<Rightarrow> bool" where
  "f64_lt NaN y = False"
| "f64_lt (Fin a) NaN = False"
| "f64_lt PInf NaN = False"
| "f64_lt NInf NaN = False"
| "f64_lt (Fin a) (Fin b) = (a < b)"
| "f64_lt (Fin a) PInf = True"
| "f64_lt (Fin a) NInf = False"
| "f64_lt PInf y = False"
| "f64_lt NInf (Fin b) = True"
| "f64_lt NInf PInf = True"
| "f64_lt NInf NInf = False"

section \<open>The data model\<close>

type_synonym byte = "8 word"

text \<open>
  \<^verbatim>\<open>type RenderFunc func(gc *pixelgl.Canvas) bool\<close>: the render step draws on the shadow
  frame it is handed and reports whether anything changed. The frame is modelled by its
  RGBA bytes (what \<^verbatim>\<open>Pixels()\<close> returns), the render step by a function from the
  bytes before to the bytes after and the flag. A Go \<^verbatim>\<open>nil\<close> function is \<open>None\<close>.
\<close>

type_synonym RenderFunc = "byte list \<Rightarrow> byte list \<times> bool"

text \<open>
  \<^verbatim>\<open>done chan struct{}\<close>: a channel value is \<^verbatim>\<open>nil\<close> or refers to a channel, which
  is open or closed. The channel is unbuffered and nothing else shares it, so the
  reference and the channel's state are one value.
\<close>

datatype chan = NilChan | OpenChan | ClosedChan

text \<open>
  The calls the package makes on the JavaScript host and on the render step, in the order
  it makes them. They are the observable effects of the package.
\<close>

datatype event =
    CreateElement
  | SetAttr string int
  | AppendChild
  | GetContext
  | CreateImageData int int
  | NewUint8Array nat
  | RequestAnimationFrame nat nat
  | CancelAnimationFrame "nat option"
  | RenderCall
  | CopyBytesToJS nat
  | ImageDataSet "byte list"
  | PutImageData "byte list" int int
  | Release nat

text \<open>
  One background goroutine of \<^verbatim>\<open>initFrameUpdate\<close> with the variables its closure
  captures: spawned by the \<^verbatim>\<open>go\<close> statement and not yet run; parked on
  \<^verbatim>\<open><-c.done\<close> with its \<^verbatim>\<open>renderFrame\<close> function alive, holding the render step and
  \<^verbatim>\<open>lastTimestamp\<close>; or returned, its deferred \<^verbatim>\<open>renderFrame.Release()\<close> done.
\<close>

datatype frameloop =
    Spawned "RenderFunc option"
  | Parked "RenderFunc option" f64
  | Exited

text \<open>
  \<^verbatim>\<open>type Canvasp struct\<close>. The handles \<^verbatim>\<open>window\<close>, \<^verbatim>\<open>doc\<close>, \<^verbatim>\<open>body\<close> and
  \<^verbatim>\<open>ctx\<close> carry no state of their own and are left out. A \<^verbatim>\<open>js.Value\<close> or a
  pointer that is still the zero value is \<open>None\<close>; \<open>imgData\<close> and \<open>copybuff\<close> hold the
  bytes of the JavaScript \<^verbatim>\<open>ImageData.data\<close> and \<^verbatim>\<open>Uint8Array\<close> they refer to, and
  \<open>image_px\<close> the pixels of the shadow frame \<^verbatim>\<open>image\<close>.
\<close>

record canvasp =
  done_chan :: chan
  canvas :: "string option"
  imgData :: "byte list option"
  width :: int
  height :: int
  image_px :: "byte list option"
  reqID :: "nat option"
  timeStep :: f64
  copybuff :: "byte list option"

text \<open>
  The program state around one \<^verbatim>\<open>Canvasp\<close>: the goroutines \<^verbatim>\<open>initFrameUpdate\<close> has
  spawned, the host's pending animation-frame requests (request id, index of the
  goroutine whose \<^verbatim>\<open>renderFrame\<close> is registered), the next request id the host hands
  out, the calls made so far, and whether a panic has ended the program.
\<close>

record world = canvasp +
  loops :: "frameloop list"
  pending :: "(nat \<times> nat) list"
  nextID :: nat
  trace :: "event list"
  crashed :: bool

text \<open>What an API call does to its caller: it returns, blocks forever, or panics.\<close>

datatype 'a outcome = Returns 'a | Blocks 'a | Panics 'a

section \<open>The host\<close>

text \<open>
  \<^verbatim>\<open>requestAnimationFrame(f)\<close> queues the function of goroutine \<open>k\<close> and returns a fresh
  request id; \<^verbatim>\<open>cancelAnimationFrame(h)\<close> removes the request with that id and ignores
  any other value, \<^verbatim>\<open>undefined\<close> included.
\<close>

definition requestAnimationFrame :: "nat \<Rightarrow> world \<Rightarrow> nat \<times> world" where
  "requestAnimationFrame k w =
     (nextID w,
      w\<lparr>pending := pending w @ [(nextID w, k)],
        nextID := Suc (nextID w),
        trace := trace w @ [RequestAnimationFrame k (nextID w)]\<rparr>)"

definition cancelAnimationFrame :: "nat option \<Rightarrow> world \<Rightarrow> world" where
  "cancelAnimationFrame h w =
     w\<lparr>pending := (case h of None \<Rightarrow> pending w
                    | Some rid \<Rightarrow> filter (\<lambda>p. fst p \<noteq> rid) (pending w)),
       trace := trace w @ [CancelAnimationFrame h]\<rparr>"

text \<open>
  Modelled from the spec: \<^verbatim>\<open>pixelgl.NewCanvas\<close> and \<^verbatim>\<open>Pixels()\<close> belong to the
  imported rasteriser and are not under src/. The spec's data model gives the Frame
  Buffer as a sequence of RGBA bytes of length width * height * 4; a new frame is
  cleared.
\<close>

definition NewCanvas_pixels :: "int \<Rightarrow> int \<Rightarrow> byte list" where
  "NewCanvas_pixels wd ht = replicate (nat (wd * ht * 4)) 0"

text \<open>
  The host's \<^verbatim>\<open>createImageData(sw, sh)\<close>: a cleared RGBA array of
  \<open>4 * |sw| * |sh|\<close> bytes.
\<close>

definition createImageData :: "int \<Rightarrow> int \<Rightarrow> byte list" where
  "createImageData sw sh = replicate (nat (4 * \<bar>sw\<bar> * \<bar>sh\<bar>)) 0"

section \<open>The package\<close>

text \<open>
  \<^verbatim>\<open>Set\<close>: binds the canvas element, creates the image data, the shadow frame and
  the static copy buffer. The host throws on \<^verbatim>\<open>createImageData\<close> with a zero side,
  which panics in Go after the three fields before it are assigned.
\<close>

definition Set :: "string \<Rightarrow> int \<Rightarrow> int \<Rightarrow> world \<Rightarrow> world" where
  "Set cv wd ht w =
     (let w1 = w\<lparr>canvas := Some cv, height := ht, width := wd,
                  trace := trace w @ [GetContext]\<rparr>
      in if wd = 0 \<or> ht = 0 then w1\<lparr>crashed := True\<rparr>
         else
           (let px = NewCanvas_pixels wd ht
            in w1\<lparr>imgData := Some (createImageData wd ht),
                  image_px := Some px,
                  copybuff := Some (replicate (length px) 0),
                  trace := trace w1 @ [CreateImageData wd ht, NewUint8Array (length px)]\<rparr>))"

text \<open>\<^verbatim>\<open>Create\<close>: makes a canvas element, appends it to the body and calls \<^verbatim>\<open>Set\<close>.\<close>

definition Create :: "int \<Rightarrow> int \<Rightarrow> world \<Rightarrow> world" where
  "Create wd ht w =
     Set ''canvas'' wd ht
       (w\<lparr>trace := trace w @
          [CreateElement, SetAttr ''height'' ht, SetAttr ''width'' wd, AppendChild]\<rparr>)"

text \<open>
  \<^verbatim>\<open>NewCanvasp\<close>: \<^verbatim>\<open>var c Canvasp\<close> is the zero value, so \<^verbatim>\<open>done\<close> is the nil
  channel; no statement of the package ever assigns it. The window's inner size is
  the host's and is passed in. The error result is always nil and is left out.
\<close>

definition zero_world :: world where
  "zero_world =
     \<lparr>done_chan = NilChan, canvas = None, imgData = None, width = 0, height = 0,
      image_px = None, reqID = None, timeStep = Fin 0, copybuff = None,
      loops = [], pending = [], nextID = 1, trace = [], crashed = False\<rparr>"

definition NewCanvasp :: "bool \<Rightarrow> int \<Rightarrow> int \<Rightarrow> world" where
  "NewCanvasp create innerWidth innerHeight =
     (if create then Create innerWidth innerHeight zero_world else zero_world)"

text \<open>\<^verbatim>\<open>SetFPS\<close>: \<^verbatim>\<open>c.timeStep = 1000 / maxFPS\<close>.\<close>

definition SetFPS :: "f64 \<Rightarrow> world \<Rightarrow> world" where
  "SetFPS maxFPS w = w\<lparr>timeStep := f64_div (Fin 1000) maxFPS\<rparr>"

definition Height :: "world \<Rightarrow> int" where
  "Height w = height w"

definition Width :: "world \<Rightarrow> int" where
  "Width w = width w"

text \<open>
  \<^verbatim>\<open>imgCopy\<close>, statement by statement. \<^verbatim>\<open>Pixels()\<close> on a nil frame panics;
  \<^verbatim>\<open>js.CopyBytesToJS\<close> panics on a destination that is no \<^verbatim>\<open>Uint8Array\<close> and copies
  as many bytes as the shorter of the two holds. \<^verbatim>\<open>imgData.Get\<close> panics on the zero
  value, and \<^verbatim>\<open>data.set(copybuff)\<close> throws when the source is longer than the data.
  \<^verbatim>\<open>putImageData(imgData, 0, 0)\<close> paints the whole image data at the origin.
\<close>

definition imgCopy :: "world \<Rightarrow> world" where
  "imgCopy w =
     (case image_px w of
        None \<Rightarrow> w\<lparr>crashed := True\<rparr>
      | Some px \<Rightarrow>
          (case copybuff w of
             None \<Rightarrow> w\<lparr>crashed := True\<rparr>
           | Some cb \<Rightarrow>
               (let n = min (length cb) (length px);
                    cb' = take n px @ drop n cb;
                    w1 = w\<lparr>copybuff := Some cb', trace := trace w @ [CopyBytesToJS n]\<rparr>
                in (case imgData w1 of
                      None \<Rightarrow> w1\<lparr>crashed := True\<rparr>
                    | Some d \<Rightarrow>
                        if length d < length cb' then w1\<lparr>crashed := True\<rparr>
                        else
                          (let d' = cb' @ drop (length cb') d
                           in w1\<lparr>imgData := Some d',
                                 trace := trace w1 @
                                   [ImageDataSet cb', PutImageData d' 0 0]\<rparr>)))))"

text \<open>
  The render-and-copy block of the callback (the \<^verbatim>\<open>if rf != nil ... else ...\<close> of
  \<^verbatim>\<open>initFrameUpdate\<close>): with a render step, call it on the shadow frame and copy
  only if it returns true; without one, copy. A render step handed a nil frame is taken
  to panic.
\<close>

definition render_and_copy :: "RenderFunc option \<Rightarrow> world \<Rightarrow> world" where
  "render_and_copy rf w =
     (case rf of
        Some f \<Rightarrow>
          (case image_px w of
             None \<Rightarrow> w\<lparr>crashed := True\<rparr>
           | Some px \<Rightarrow>
               (let w1 = w\<lparr>image_px := Some (fst (f px)), trace := trace w @ [RenderCall]\<rparr>
                in if snd (f px) then imgCopy w1 else w1))
      | None \<Rightarrow> imgCopy w)"

text \<open>
  The \<^verbatim>\<open>renderFrame\<close> callback of goroutine \<open>k\<close>, whose closure holds the render
  step \<open>rf\<close> and \<^verbatim>\<open>lastTimestamp = lastT\<close>, called with \<open>timestamp\<close>: the gate, the
  block above, the assignment to \<^verbatim>\<open>lastTimestamp\<close>, then the next request, whose id
  is stored in \<^verbatim>\<open>c.reqID\<close>. A panic ends the program before the statements that
  follow it.
\<close>

definition renderFrame :: "nat \<Rightarrow> RenderFunc option \<Rightarrow> f64 \<Rightarrow> f64 \<Rightarrow> world \<Rightarrow> world" where
  "renderFrame k rf lastT timestamp w =
     (let w1 =
        (if f64_ge (f64_sub timestamp lastT) (timeStep w) then
           (let w2 = render_and_copy rf w
            in if crashed w2 then w2
               else w2\<lparr>loops := (loops w2)[k := Parked rf timestamp]\<rparr>)
         else w)
      in if crashed w1 then w1
         else (let r = requestAnimationFrame k w1
               in (snd r)\<lparr>reqID := Some (fst r)\<rparr>))"

text \<open>
  \<^verbatim>\<open>initFrameUpdate\<close>: the \<^verbatim>\<open>go\<close> statement spawns the goroutine and returns.
\<close>

definition initFrameUpdate :: "RenderFunc option \<Rightarrow> world \<Rightarrow> world" where
  "initFrameUpdate rf w = w\<lparr>loops := loops w @ [Spawned rf]\<rparr>"

text \<open>
  The goroutine's deferred \<^verbatim>\<open>renderFrame.Release()\<close> as it returns.
\<close>

definition exit_loop :: "nat \<Rightarrow> world \<Rightarrow> world" where
  "exit_loop k w = w\<lparr>loops := (loops w)[k := Exited], trace := trace w @ [Release k]\<rparr>"

text \<open>
  The scheduler runs the spawned goroutine \<open>k\<close> up to \<^verbatim>\<open><-c.done\<close>:
  \<^verbatim>\<open>lastTimestamp\<close> starts as the zero value, the first request is made and its id is
  dropped (only the requests made inside the callback are stored in \<^verbatim>\<open>c.reqID\<close>).
  The receive blocks on a nil or open channel and returns at once on a closed one.
\<close>

definition go_run :: "nat \<Rightarrow> world \<Rightarrow> world" where
  "go_run k w =
     (if crashed w \<or> length (loops w) \<le> k then w
      else
        (case loops w ! k of
           Spawned rf \<Rightarrow>
             (let w1 = snd (requestAnimationFrame k w)
              in if done_chan w1 = ClosedChan then exit_loop k w1
                 else w1\<lparr>loops := (loops w1)[k := Parked rf (Fin 0)]\<rparr>)
         | Parked rf lastT \<Rightarrow> w
         | Exited \<Rightarrow> w))"

text \<open>\<^verbatim>\<open>Start\<close>: \<^verbatim>\<open>c.SetFPS(maxFPS); c.initFrameUpdate(rf)\<close>. It has no result.\<close>

definition Start :: "f64 \<Rightarrow> RenderFunc option \<Rightarrow> world \<Rightarrow> world" where
  "Start maxFPS rf w = initFrameUpdate rf (SetFPS maxFPS w)"

text \<open>
  The host runs the request \<open>rid\<close> at the display refresh with timestamp \<open>T\<close>: a request
  that is not pending does not run, one that runs is no longer pending, and calling a
  released function throws in the host without running any Go code.
\<close>

definition fire :: "nat \<Rightarrow> f64 \<Rightarrow> world \<Rightarrow> world" where
  "fire rid T w =
     (if crashed w then w
      else
        (case map_of (pending w) rid of
           None \<Rightarrow> w
         | Some k \<Rightarrow>
             (let w1 = w\<lparr>pending := filter (\<lambda>p. fst p \<noteq> rid) (pending w)\<rparr>
              in if length (loops w1) \<le> k then w1
                 else
                   (case loops w1 ! k of
                      Parked rf lastT \<Rightarrow> renderFrame k rf lastT T w1
                    | Spawned rf \<Rightarrow> w1
                    | Exited \<Rightarrow> w1))))"

text \<open>
  A display refresh with timestamp \<open>T\<close>, for a page with one frame loop: the host runs
  the oldest pending request, which is the only one when \<^verbatim>\<open>Start\<close> was called once.
\<close>

definition tick :: "f64 \<Rightarrow> world \<Rightarrow> world" where
  "tick T w = (case pending w of [] \<Rightarrow> w | p # ps \<Rightarrow> fire (fst p) T w)"

text \<open>
  The goroutine that takes the value \<^verbatim>\<open>Stop\<close> sends on an open channel: the first one
  parked on \<^verbatim>\<open><-c.done\<close>, else the first spawned one, which the scheduler runs up to
  its receive while the sender waits. The receiver then returns and releases its
  function. With no such goroutine nothing ever receives.
\<close>

fun receive_done :: "nat \<Rightarrow> frameloop list \<Rightarrow> world \<Rightarrow> world option" where
  "receive_done k [] w = None"
| "receive_done k (Parked rf lastT # ls) w = Some (exit_loop k w)"
| "receive_done k (Spawned rf # ls) w =
     (if list_ex (\<lambda>l. case l of Parked rf' lastT' \<Rightarrow> True | _ \<Rightarrow> False) ls
      then receive_done (Suc k) ls w
      else Some (exit_loop k (snd (requestAnimationFrame k w))))"
| "receive_done k (Exited # ls) w = receive_done (Suc k) ls w"

text \<open>
  \<^verbatim>\<open>Stop\<close>: cancels the request stored in \<^verbatim>\<open>c.reqID\<close>, sends on \<^verbatim>\<open>c.done\<close>, closes
  it. A send on a nil channel blocks forever, a send on a closed channel panics, a send
  on an open channel blocks until a goroutine receives.
\<close>

definition Stop :: "world \<Rightarrow> world outcome" where
  "Stop w =
     (let w1 = cancelAnimationFrame (reqID w) w
      in (case done_chan w1 of
            NilChan \<Rightarrow> Blocks w1
          | ClosedChan \<Rightarrow> Panics w1
          | OpenChan \<Rightarrow>
              (case receive_done 0 (loops w1) w1 of
                 None \<Rightarrow> Blocks w1
               | Some w2 \<Rightarrow> Returns (w2\<lparr>done_chan := ClosedChan\<rparr>))))"

section \<open>Observations\<close>

text \<open>The calls made between two states of one run.\<close>

definition new_events :: "world \<Rightarrow> world \<Rightarrow> event list" where
  "new_events w w' = drop (length (trace w)) (trace w')"

fun is_render :: "event \<Rightarrow> bool" where
  "is_render RenderCall = True"
| "is_render e = False"

fun is_copy :: "event \<Rightarrow> bool" where
  "is_copy (CopyBytesToJS n) = True"
| "is_copy (ImageDataSet bs) = True"
| "is_copy (PutImageData bs x y) = True"
| "is_copy e = False"

fun is_request :: "event \<Rightarrow> bool" where
  "is_request (RequestAnimationFrame k rid) = True"
| "is_request e = False"

fun is_alloc :: "event \<Rightarrow> bool" where
  "is_alloc (NewUint8Array n) = True"
| "is_alloc e = False"

text \<open>The timestamps, of a sequence of display refreshes, at which a copy was made.\<close>

fun copy_times :: "f64 list \<Rightarrow> world \<Rightarrow> f64 list" where
  "copy_times [] w = []"
| "copy_times (T # Ts) w =
     (if filter is_copy (new_events w (tick T w)) \<noteq> [] then [T] else [])
       @ copy_times Ts (tick T w)"

text \<open>The same for the calls of the render step.\<close>

fun render_times :: "f64 list \<Rightarrow> world \<Rightarrow> f64 list" where
  "render_times [] w = []"
| "render_times (T # Ts) w =
     (if filter is_render (new_events w (tick T w)) \<noteq> [] then [T] else [])
       @ render_times Ts (tick T w)"

text \<open>
  \<^verbatim>\<open>Set\<close> has been run: the image data, the shadow frame and the copy buffer exist,
  and the copy buffer fits into the image data.
\<close>

definition surface_ok :: "world \<Rightarrow> bool" where
  "surface_ok w =
     (case copybuff w of
        None \<Rightarrow> False
      | Some cb \<Rightarrow>
          (case image_px w of
             None \<Rightarrow> False
           | Some px \<Rightarrow>
               (case imgData w of
                  None \<Rightarrow> False
                | Some d \<Rightarrow> length cb \<le> length d)))"

text \<open>
  The render-and-copy block copies: there is no render step, or the render step reports
  a change on the current frame.
\<close>

definition wants_copy :: "RenderFunc option \<Rightarrow> world \<Rightarrow> bool" where
  "wants_copy rf w =
     (case rf of
        None \<Rightarrow> True
      | Some f \<Rightarrow> (case image_px w of None \<Rightarrow> False | Some px \<Rightarrow> snd (f px)))"

section \<open>Scenarios\<close>

text \<open>
  Two render steps, one that always reports a change and one that never does, and the
  state of a page that creates a \<^verbatim>\<open>Canvasp\<close> with \<^verbatim>\<open>NewCanvasp(false)\<close>, binds a
  canvas of one pixel with \<^verbatim>\<open>Set\<close>, calls \<^verbatim>\<open>Start\<close> and lets the spawned goroutine
  run up to its receive.
\<close>

definition render_always :: RenderFunc where
  "render_always px = (px, True)"

definition render_unchanged :: RenderFunc where
  "render_unchanged px = (px, False)"

definition started :: "f64 \<Rightarrow> RenderFunc option \<Rightarrow> world" where
  "started maxFPS rf =
     go_run 0 (Start maxFPS rf (Set ''canvas'' 1 1 (NewCanvasp False 0 0)))"

section \<open>Reachable states\<close>

text \<open>
  The states a program can bring about with the exported functions of the package, the
  scheduler and the host. A caller blocked inside \<^verbatim>\<open>Stop\<close> does not stop the host
  from running callbacks, so the state in which \<^verbatim>\<open>Stop\<close> blocks is reachable too.
\<close>

inductive reachable :: "world \<Rightarrow> bool" where
  r_new: "reachable (NewCanvasp create innerWidth innerHeight)"
| r_create: "reachable w \<Longrightarrow> reachable (Create wd ht w)"
| r_set: "reachable w \<Longrightarrow> reachable (Set cv wd ht w)"
| r_start: "reachable w \<Longrightarrow> reachable (Start maxFPS rf w)"
| r_setfps: "reachable w \<Longrightarrow> reachable (SetFPS maxFPS w)"
| r_go: "reachable w \<Longrightarrow> reachable (go_run k w)"
| r_fire: "reachable w \<Longrightarrow> reachable (fire rid T w)"
| r_stop_blocks: "reachable w \<Longrightarrow> Stop w = Blocks w' \<Longrightarrow> reachable w'"
| r_stop_returns: "reachable w \<Longrightarrow> Stop w = Returns w' \<Longrightarrow> reachable w'"

section \<open>Basic facts\<close>


lemma new_events_append: "trace w' = trace w @ evs \<Longrightarrow> new_events w w' = evs"
  by (simp add: new_events_def)

lemma imgCopy_frame:
  "loops (imgCopy w) = loops w \<and> pending (imgCopy w) = pending w \<and>
   nextID (imgCopy w) = nextID w \<and> timeStep (imgCopy w) = timeStep w \<and>
   reqID (imgCopy w) = reqID w \<and> done_chan (imgCopy w) = done_chan w \<and>
   image_px (imgCopy w) = image_px w"
  by (simp add: imgCopy_def Let_def split: option.splits)

lemma imgCopy_ok:
  assumes "surface_ok w"
  shows "crashed (imgCopy w) = crashed w \<and> surface_ok (imgCopy w) \<and>
         (\<exists>n bs ds. trace (imgCopy w) = trace w @ [CopyBytesToJS n, ImageDataSet bs, PutImageData ds 0 0])"
  using assms by (auto simp add: imgCopy_def surface_ok_def Let_def split: option.splits)

lemma render_and_copy_frame:
  "loops (render_and_copy rf w) = loops w \<and> pending (render_and_copy rf w) = pending w \<and>
   nextID (render_and_copy rf w) = nextID w \<and> timeStep (render_and_copy rf w) = timeStep w \<and>
   reqID (render_and_copy rf w) = reqID w \<and> done_chan (render_and_copy rf w) = done_chan w"
  by (simp add: render_and_copy_def imgCopy_frame Let_def split: option.splits)

lemma render_and_copy_none:
  assumes "surface_ok w" "\<not> crashed w"
  shows "\<not> crashed (render_and_copy None w) \<and> surface_ok (render_and_copy None w) \<and>
         (\<exists>n bs ds. trace (render_and_copy None w) =
             trace w @ [CopyBytesToJS n, ImageDataSet bs, PutImageData ds 0 0])"
  using imgCopy_ok [OF assms(1)] assms(2) by (simp add: render_and_copy_def)

lemma render_and_copy_unchanged:
  assumes "surface_ok w" "\<not> crashed w" "image_px w = Some px" "\<not> snd (f px)"
  shows "\<not> crashed (render_and_copy (Some f) w) \<and> surface_ok (render_and_copy (Some f) w) \<and>
         trace (render_and_copy (Some f) w) = trace w @ [RenderCall]"
  using assms by (simp add: render_and_copy_def surface_ok_def split: option.splits)

lemma render_and_copy_changed:
  assumes "surface_ok w" "\<not> crashed w" "image_px w = Some px" "snd (f px)"
  shows "\<not> crashed (render_and_copy (Some f) w) \<and> surface_ok (render_and_copy (Some f) w) \<and>
         (\<exists>n bs ds. trace (render_and_copy (Some f) w) =
             trace w @ [RenderCall, CopyBytesToJS n, ImageDataSet bs, PutImageData ds 0 0])"
proof -
  let ?w1 = "w\<lparr>image_px := Some (fst (f px)), trace := trace w @ [RenderCall]\<rparr>"
  have ok: "surface_ok ?w1"
    using assms(1) by (simp add: surface_ok_def split: option.splits)
  have eq: "render_and_copy (Some f) w = imgCopy ?w1"
    using assms(3,4) by (simp add: render_and_copy_def)
  show ?thesis
    using imgCopy_ok [OF ok] assms(2) by (auto simp add: eq)
qed

text \<open>The calls of the block in one statement.\<close>

lemma render_and_copy_events:
  assumes "surface_ok w" "\<not> crashed w"
  shows "\<exists>body. trace (render_and_copy rf w) = trace w @ body \<and>
           filter is_request body = [] \<and> filter is_alloc body = [] \<and>
           (filter is_render body \<noteq> [] \<or> filter is_copy body \<noteq> []) \<and>
           (filter is_render body \<noteq> []) = (rf \<noteq> None) \<and>
           (filter is_copy body \<noteq> []) = wants_copy rf w"
proof (cases rf)
  case None
  then show ?thesis
    using render_and_copy_none [OF assms] by (auto simp add: wants_copy_def)
next
  case (Some f)
  obtain px where px: "image_px w = Some px"
    using assms(1) by (auto simp add: surface_ok_def split: option.splits)
  show ?thesis
  proof (cases "snd (f px)")
    case True
    then show ?thesis
      using render_and_copy_changed [where f = f, OF assms px True] Some px
      by (auto simp add: wants_copy_def)
  next
    case False
    then show ?thesis
      using render_and_copy_unchanged [where f = f, OF assms px False] Some px
      by (auto simp add: wants_copy_def)
  qed
qed

lemma render_and_copy_safe:
  assumes "surface_ok w" "\<not> crashed w"
  shows "\<not> crashed (render_and_copy rf w) \<and> surface_ok (render_and_copy rf w)"
proof (cases rf)
  case None
  then show ?thesis using render_and_copy_none [OF assms] by simp
next
  case (Some f)
  obtain px where px: "image_px w = Some px"
    using assms(1) by (auto simp add: surface_ok_def split: option.splits)
  show ?thesis
    using render_and_copy_changed [where f = f, OF assms px] render_and_copy_unchanged [where f = f, OF assms px] Some
    by (cases "snd (f px)") auto
qed

lemma f64_lt_not_ge: "f64_lt a b \<Longrightarrow> \<not> f64_ge a b"
  by (cases a; cases b) simp_all

lemma surface_ok_same:
  "copybuff w' = copybuff w \<Longrightarrow> image_px w' = image_px w \<Longrightarrow> imgData w' = imgData w
   \<Longrightarrow> surface_ok w' = surface_ok w"
  by (simp add: surface_ok_def split: option.splits)

lemma wants_copy_same: "image_px w' = image_px w \<Longrightarrow> wants_copy rf w' = wants_copy rf w"
  by (simp add: wants_copy_def split: option.splits)

lemma renderFrame_skip:
  assumes "\<not> f64_ge (f64_sub T lastT) (timeStep w)" "\<not> crashed w"
  shows "renderFrame k rf lastT T w =
           w\<lparr>pending := pending w @ [(nextID w, k)], nextID := Suc (nextID w),
             trace := trace w @ [RequestAnimationFrame k (nextID w)],
             reqID := Some (nextID w)\<rparr>"
  using assms by (simp add: renderFrame_def requestAnimationFrame_def)

lemma fire_parked:
  assumes "\<not> crashed w" "map_of (pending w) rid = Some k" "k < length (loops w)"
    "loops w ! k = Parked rf lastT"
  shows "fire rid T w =
           renderFrame k rf lastT T (w\<lparr>pending := filter (\<lambda>p. fst p \<noteq> rid) (pending w)\<rparr>)"
  using assms by (simp add: fire_def)

lemma fire_skip:
  assumes "\<not> crashed w" "map_of (pending w) rid = Some k" "k < length (loops w)"
    "loops w ! k = Parked rf lastT" "\<not> f64_ge (f64_sub T lastT) (timeStep w)"
  shows "fire rid T w =
           w\<lparr>pending := filter (\<lambda>p. fst p \<noteq> rid) (pending w) @ [(nextID w, k)],
             nextID := Suc (nextID w),
             trace := trace w @ [RequestAnimationFrame k (nextID w)],
             reqID := Some (nextID w)\<rparr>"
  using assms by (simp add: fire_parked renderFrame_skip)

lemma fire_pass:
  assumes "\<not> crashed w" "map_of (pending w) rid = Some k" "k < length (loops w)"
    "loops w ! k = Parked rf lastT" "f64_ge (f64_sub T lastT) (timeStep w)" "surface_ok w"
  shows "\<not> crashed (fire rid T w) \<and> surface_ok (fire rid T w) \<and>
         loops (fire rid T w) = (loops w)[k := Parked rf T] \<and>
         pending (fire rid T w) = filter (\<lambda>p. fst p \<noteq> rid) (pending w) @ [(nextID w, k)] \<and>
         nextID (fire rid T w) = Suc (nextID w) \<and>
         reqID (fire rid T w) = Some (nextID w) \<and>
         timeStep (fire rid T w) = timeStep w \<and>
         done_chan (fire rid T w) = done_chan w \<and>
         (\<exists>body. trace (fire rid T w) = trace w @ body @ [RequestAnimationFrame k (nextID w)] \<and>
            filter is_request body = [] \<and> filter is_alloc body = [] \<and>
            (filter is_render body \<noteq> [] \<or> filter is_copy body \<noteq> []) \<and>
            (filter is_render body \<noteq> []) = (rf \<noteq> None) \<and>
            (filter is_copy body \<noteq> []) = wants_copy rf w)"
proof -
  let ?w0 = "w\<lparr>pending := filter (\<lambda>p. fst p \<noteq> rid) (pending w)\<rparr>"
  let ?w2 = "render_and_copy rf ?w0"
  have ok0: "surface_ok ?w0" "\<not> crashed ?w0"
    using assms(1,6) by (simp_all add: surface_ok_same [of ?w0 w])
  have safe: "\<not> crashed ?w2" "surface_ok ?w2"
    using render_and_copy_safe [OF ok0] by simp_all
  have frame: "loops ?w2 = loops w" "pending ?w2 = filter (\<lambda>p. fst p \<noteq> rid) (pending w)"
    "nextID ?w2 = nextID w" "timeStep ?w2 = timeStep w" "done_chan ?w2 = done_chan w"
    using render_and_copy_frame [of rf ?w0] by simp_all
  define P where "P = (\<lambda>body.
      filter is_request body = [] \<and> filter is_alloc body = [] \<and>
      (filter is_render body \<noteq> [] \<or> filter is_copy body \<noteq> []) \<and>
      (filter is_render body \<noteq> []) = (rf \<noteq> None) \<and>
      (filter is_copy body \<noteq> []) = wants_copy rf w)"
  have "\<exists>body. trace ?w2 = trace w @ body \<and> P body"
    using render_and_copy_events [OF ok0, of rf] unfolding P_def
    by (simp add: wants_copy_same [of ?w0 w])
  then obtain body where body: "trace ?w2 = trace w @ body" and Pbody: "P body"
    by (elim exE conjE)
  have fp: "fire rid T w = renderFrame k rf lastT T ?w0"
    using assms(1-4) by (rule fire_parked)
  have gate0: "f64_ge (f64_sub T lastT) (timeStep ?w0)"
    using assms(5) by simp
  let ?w3 = "?w2\<lparr>loops := (loops ?w2)[k := Parked rf T]\<rparr>"
  have rf_eq: "renderFrame k rf lastT T ?w0 =
      (snd (requestAnimationFrame k ?w3))\<lparr>reqID := Some (fst (requestAnimationFrame k ?w3))\<rparr>"
    unfolding renderFrame_def Let_def using gate0 safe(1) by simp
  define w' where "w' = fire rid T w"
  have w': "w' = (snd (requestAnimationFrame k ?w3))\<lparr>reqID := Some (fst (requestAnimationFrame k ?w3))\<rparr>"
    unfolding w'_def fp rf_eq ..
  have c1: "\<not> crashed w'"
    unfolding w' using safe(1) by (simp add: requestAnimationFrame_def)
  have "surface_ok w' = surface_ok ?w2"
    by (rule surface_ok_same) (simp_all add: w' requestAnimationFrame_def)
  then have c2: "surface_ok w'"
    using safe(2) by simp
  have c3: "loops w' = (loops w)[k := Parked rf T]"
    unfolding w' using frame(1) by (simp add: requestAnimationFrame_def)
  have c4: "pending w' = filter (\<lambda>p. fst p \<noteq> rid) (pending w) @ [(nextID w, k)]"
    unfolding w' using frame(2,3) by (simp add: requestAnimationFrame_def)
  have c5: "nextID w' = Suc (nextID w)"
    unfolding w' using frame(3) by (simp add: requestAnimationFrame_def)
  have c6: "reqID w' = Some (nextID w)"
    unfolding w' using frame(3) by (simp add: requestAnimationFrame_def)
  have c7: "timeStep w' = timeStep w"
    unfolding w' using frame(4) by (simp add: requestAnimationFrame_def)
  have c8: "done_chan w' = done_chan w"
    unfolding w' using frame(5) by (simp add: requestAnimationFrame_def)
  have c9: "trace w' = trace w @ body @ [RequestAnimationFrame k (nextID w)]"
    unfolding w' using frame(3) body by (simp add: requestAnimationFrame_def)
  have "\<exists>body. trace w' = trace w @ body @ [RequestAnimationFrame k (nextID w)] \<and> P body"
    using c9 Pbody by (intro exI conjI)
  then show ?thesis
    unfolding w'_def [symmetric] P_def
    using c1 c2 c3 c4 c5 c6 c7 c8 by (intro conjI)
qed

lemma replicate_4: "replicate 4 x = [x, x, x, x]"
  by (simp add: eval_nat_numeral)

lemma started_eval:
  "started m rf =
     \<lparr>done_chan = NilChan, canvas = Some ''canvas'', imgData = Some [0, 0, 0, 0],
      width = 1, height = 1, image_px = Some [0, 0, 0, 0], reqID = None,
      timeStep = f64_div (Fin 1000) m, copybuff = Some [0, 0, 0, 0],
      loops = [Parked rf (Fin 0)], pending = [(1, 0)], nextID = 2,
      trace = [GetContext, CreateImageData 1 1, NewUint8Array 4, RequestAnimationFrame 0 1],
      crashed = False\<rparr>"
  by (simp add: started_def go_run_def Start_def SetFPS_def initFrameUpdate_def Set_def
      NewCanvasp_def zero_world_def requestAnimationFrame_def NewCanvas_pixels_def
      createImageData_def Let_def replicate_4)

lemma started_ok: "surface_ok (started m rf)"
  by (simp add: started_eval surface_ok_def)

lemma tick_single: "pending w = [(rid, k)] \<Longrightarrow> tick T w = fire rid T w"
  by (simp add: tick_def)



text \<open>The definitions that evaluate a display refresh on a concrete state.\<close>

lemmas run_defs = tick_def fire_def renderFrame_def render_and_copy_def imgCopy_def
  requestAnimationFrame_def new_events_def render_always_def render_unchanged_def Let_def

section \<open>The frame gate\<close>

text \<open>What one run of a live callback does, with the surface set up.\<close>

lemma fire_effects:
  assumes "\<not> crashed w" and "surface_ok w" and "map_of (pending w) rid = Some k"
    and "k < length (loops w)" and "loops w ! k = Parked rf lastT"
  shows "((filter is_render (new_events w (fire rid T w)) \<noteq> [] \<or>
           filter is_copy (new_events w (fire rid T w)) \<noteq> [])
          = f64_ge (f64_sub T lastT) (timeStep w)) \<and>
         (f64_lt (f64_sub T lastT) (timeStep w) \<longrightarrow>
            new_events w (fire rid T w) = [RequestAnimationFrame k (nextID w)]) \<and>
         loops (fire rid T w) ! k =
            Parked rf (if f64_ge (f64_sub T lastT) (timeStep w) then T else lastT) \<and>
         filter is_request (new_events w (fire rid T w)) = [RequestAnimationFrame k (nextID w)] \<and>
         pending (fire rid T w) = filter (\<lambda>p. fst p \<noteq> rid) (pending w) @ [(nextID w, k)] \<and>
         reqID (fire rid T w) = Some (nextID w)"
proof (cases "f64_ge (f64_sub T lastT) (timeStep w)")
  case True
  note pass = fire_pass [OF assms(1,3,4,5) True assms(2)]
  from pass obtain body where body:
    "trace (fire rid T w) = trace w @ body @ [RequestAnimationFrame k (nextID w)]"
    "filter is_request body = []"
    "filter is_render body \<noteq> [] \<or> filter is_copy body \<noteq> []"
    by (elim conjE exE)
  have ev: "new_events w (fire rid T w) = body @ [RequestAnimationFrame k (nextID w)]"
    using body(1) by (rule new_events_append)
  have lt: "\<not> f64_lt (f64_sub T lastT) (timeStep w)"
    using True f64_lt_not_ge by blast
  have lp: "loops (fire rid T w) ! k = Parked rf T"
    using pass assms(4) by simp
  show ?thesis
    using True lt lp body(2,3) pass by (simp add: ev)
next
  case False
  note skip = fire_skip [OF assms(1,3,4,5) False]
  have ev: "new_events w (fire rid T w) = [RequestAnimationFrame k (nextID w)]"
    by (rule new_events_append) (simp add: skip)
  show ?thesis
    using False assms(5) by (simp add: ev) (simp add: skip)
qed

text \<open>
  Claim C1. Let the host run the pending request \<open>rid\<close> of a live callback at timestamp
  \<open>T\<close>, the surface being set up. The callback calls the render step or copies if and
  only if \<open>T - lastTimestamp >= timeStep\<close>; when \<open>T - lastTimestamp < timeStep\<close> its only
  call is the next request. Passing the gate stores \<open>T\<close> in \<^verbatim>\<open>lastTimestamp\<close>, failing
  it leaves \<^verbatim>\<open>lastTimestamp\<close> alone. In both cases the callback makes exactly one
  request for the next refresh, which replaces the one that ran among the pending
  requests, and stores its id in \<^verbatim>\<open>c.reqID\<close>.
\<close>

theorem callback_gate_and_rearm:
  assumes "\<not> crashed w" and "surface_ok w" and "map_of (pending w) rid = Some k"
    and "k < length (loops w)" and "loops w ! k = Parked rf lastT"
  shows "((filter is_render (new_events w (fire rid T w)) \<noteq> [] \<or>
           filter is_copy (new_events w (fire rid T w)) \<noteq> [])
          = f64_ge (f64_sub T lastT) (timeStep w)) \<and>
         (f64_lt (f64_sub T lastT) (timeStep w) \<longrightarrow>
            new_events w (fire rid T w) = [RequestAnimationFrame k (nextID w)]) \<and>
         loops (fire rid T w) ! k =
            Parked rf (if f64_ge (f64_sub T lastT) (timeStep w) then T else lastT) \<and>
         filter is_request (new_events w (fire rid T w)) = [RequestAnimationFrame k (nextID w)] \<and>
         pending (fire rid T w) = filter (\<lambda>p. fst p \<noteq> rid) (pending w) @ [(nextID w, k)] \<and>
         reqID (fire rid T w) = Some (nextID w)"
  using assms by (rule fire_effects)

text \<open>
  Witness for C1: at 60 frames per second the first callback at 17 ms passes the gate and
  copies, the first callback at 8 ms makes the next request and nothing else.
\<close>

theorem callback_gate_and_rearm_witness:
  "\<not> crashed (started (Fin 60) (Some render_always)) \<and>
   surface_ok (started (Fin 60) (Some render_always)) \<and>
   map_of (pending (started (Fin 60) (Some render_always))) 1 = Some 0 \<and>
   0 < length (loops (started (Fin 60) (Some render_always))) \<and>
   loops (started (Fin 60) (Some render_always)) ! 0 = Parked (Some render_always) (Fin 0) \<and>
   f64_ge (f64_sub (Fin 17) (Fin 0)) (timeStep (started (Fin 60) (Some render_always))) \<and>
   filter is_copy (new_events (started (Fin 60) (Some render_always))
      (fire 1 (Fin 17) (started (Fin 60) (Some render_always)))) \<noteq> [] \<and>
   loops (fire 1 (Fin 17) (started (Fin 60) (Some render_always))) ! 0 =
      Parked (Some render_always) (Fin 17) \<and>
   f64_lt (f64_sub (Fin 8) (Fin 0)) (timeStep (started (Fin 60) (Some render_always))) \<and>
   new_events (started (Fin 60) (Some render_always))
      (fire 1 (Fin 8) (started (Fin 60) (Some render_always))) = [RequestAnimationFrame 0 2] \<and>
   pending (fire 1 (Fin 8) (started (Fin 60) (Some render_always))) = [(2, 0)]"
proof -
  let ?w = "started (Fin 60) (Some render_always)"
  have h: "\<not> crashed ?w" "surface_ok ?w" "map_of (pending ?w) 1 = Some 0"
    "0 < length (loops ?w)" "loops ?w ! 0 = Parked (Some render_always) (Fin 0)"
    by (simp_all add: started_ok) (simp_all add: started_eval)
  have g: "f64_ge (f64_sub (Fin 17) (Fin 0)) (timeStep ?w)"
    "f64_lt (f64_sub (Fin 8) (Fin 0)) (timeStep ?w)"
    by (simp_all add: started_eval)
  have cp: "filter is_copy (new_events ?w (fire 1 (Fin 17) ?w)) \<noteq> []"
    by (simp add: started_eval fire_def renderFrame_def render_and_copy_def imgCopy_def
        requestAnimationFrame_def new_events_def render_always_def Let_def)
  have e: "nextID ?w = 2" "pending ?w = [(1, 0)]"
    by (simp_all add: started_eval)
  show ?thesis
    using callback_gate_and_rearm [OF h, of "Fin 17"] callback_gate_and_rearm [OF h, of "Fin 8"]
      h g cp e by simp
qed

section \<open>The timestamp of the last passed gate\<close>

text \<open>
  Claim C5. When the gate passes at a callback with timestamp \<open>Ti\<close> (one callback
  pending, the surface set up), \<^verbatim>\<open>lastTimestamp\<close> becomes \<open>Ti\<close> whether or not a copy
  was made: a copy is made exactly when there is no render step or the render step
  returns true, and whatever it returned the next callback renders or copies if and only
  if its timestamp \<open>T\<close> satisfies \<open>T - Ti >= timeStep\<close>.
\<close>

theorem gate_pass_advances_lastTimestamp:
  assumes "\<not> crashed w" and "surface_ok w" and "pending w = [(rid, k)]"
    and "k < length (loops w)" and "loops w ! k = Parked rf lastT"
    and "f64_ge (f64_sub Ti lastT) (timeStep w)"
  shows "loops (fire rid Ti w) ! k = Parked rf Ti \<and>
         (filter is_copy (new_events w (fire rid Ti w)) \<noteq> []) = wants_copy rf w \<and>
         pending (fire rid Ti w) = [(nextID w, k)] \<and>
         (\<forall>T. (filter is_render (new_events (fire rid Ti w) (tick T (fire rid Ti w))) \<noteq> [] \<or>
                filter is_copy (new_events (fire rid Ti w) (tick T (fire rid Ti w))) \<noteq> [])
               = f64_ge (f64_sub T Ti) (timeStep w))"
proof -
  have m: "map_of (pending w) rid = Some k"
    using assms(3) by simp
  note pass = fire_pass [OF assms(1) m assms(4,5,6,2)]
  let ?w' = "fire rid Ti w"
  have p': "pending ?w' = [(nextID w, k)]"
    using pass assms(3) by simp
  have l': "loops ?w' ! k = Parked rf Ti" "k < length (loops ?w')"
    using pass assms(4) by simp_all
  have ts: "timeStep ?w' = timeStep w"
    using pass by simp
  have ok': "\<not> crashed ?w'" "surface_ok ?w'"
    using pass by simp_all
  have m': "map_of (pending ?w') (nextID w) = Some k"
    by (simp add: p')
  from pass obtain body where body:
    "trace ?w' = trace w @ body @ [RequestAnimationFrame k (nextID w)]"
    "(filter is_copy body \<noteq> []) = wants_copy rf w"
    by (elim conjE exE)
  have ev: "new_events w ?w' = body @ [RequestAnimationFrame k (nextID w)]"
    using body(1) by (rule new_events_append)
  have cp: "(filter is_copy (new_events w ?w') \<noteq> []) = wants_copy rf w"
    using body(2) by (simp add: ev)
  have nxt: "(filter is_render (new_events ?w' (tick T ?w')) \<noteq> [] \<or>
              filter is_copy (new_events ?w' (tick T ?w')) \<noteq> [])
             = f64_ge (f64_sub T Ti) (timeStep w)" for T
    using fire_effects [OF ok' m' l'(2) l'(1), of T] by (simp add: tick_single [OF p'] ts)
  show ?thesis
    using l'(1) cp p' nxt by blast
qed


text \<open>
  Witness for C5: with a render step that returns false, the callback at 17 ms passes the
  gate, makes no copy and stores 17; the next callback is skipped at 33 ms (gap 16) and
  renders at 34 ms (gap 17).
\<close>

theorem gate_pass_advances_lastTimestamp_witness:
  "\<not> crashed (started (Fin 60) (Some render_unchanged)) \<and>
   surface_ok (started (Fin 60) (Some render_unchanged)) \<and>
   pending (started (Fin 60) (Some render_unchanged)) = [(1, 0)] \<and>
   0 < length (loops (started (Fin 60) (Some render_unchanged))) \<and>
   loops (started (Fin 60) (Some render_unchanged)) ! 0 = Parked (Some render_unchanged) (Fin 0) \<and>
   f64_ge (f64_sub (Fin 17) (Fin 0)) (timeStep (started (Fin 60) (Some render_unchanged))) \<and>
   loops (fire 1 (Fin 17) (started (Fin 60) (Some render_unchanged))) ! 0 =
      Parked (Some render_unchanged) (Fin 17) \<and>
   filter is_copy (new_events (started (Fin 60) (Some render_unchanged))
      (fire 1 (Fin 17) (started (Fin 60) (Some render_unchanged)))) = [] \<and>
   filter is_render (new_events (fire 1 (Fin 17) (started (Fin 60) (Some render_unchanged)))
      (tick (Fin 33) (fire 1 (Fin 17) (started (Fin 60) (Some render_unchanged))))) = [] \<and>
   filter is_render (new_events (fire 1 (Fin 17) (started (Fin 60) (Some render_unchanged)))
      (tick (Fin 34) (fire 1 (Fin 17) (started (Fin 60) (Some render_unchanged))))) \<noteq> []"
proof -
  let ?w = "started (Fin 60) (Some render_unchanged)"
  have h: "\<not> crashed ?w" "surface_ok ?w" "pending ?w = [(1, 0)]"
    "0 < length (loops ?w)" "loops ?w ! 0 = Parked (Some render_unchanged) (Fin 0)"
    "f64_ge (f64_sub (Fin 17) (Fin 0)) (timeStep ?w)"
    by (simp_all add: started_ok) (simp_all add: started_eval)
  have nc: "\<not> wants_copy (Some render_unchanged) ?w"
    by (simp add: started_eval wants_copy_def render_unchanged_def)
  have r33: "filter is_render (new_events (fire 1 (Fin 17) ?w) (tick (Fin 33) (fire 1 (Fin 17) ?w))) = []"
    by (simp add: started_eval run_defs)
  have r34: "filter is_render (new_events (fire 1 (Fin 17) ?w) (tick (Fin 34) (fire 1 (Fin 17) ?w))) \<noteq> []"
    by (simp add: started_eval run_defs)
  show ?thesis
    using gate_pass_advances_lastTimestamp [OF h] h nc r33 r34 by simp
qed

section \<open>The first callback\<close>



section \<open>The pacing interval\<close>



text \<open>
  Claim C9. \<^verbatim>\<open>SetFPS\<close> is idempotent: for every value \<open>v\<close>, NaN and the infinities
  included, calling it twice leaves the state that calling it once leaves; it changes
  nothing but the interval and makes no call on the host.
\<close>

theorem SetFPS_idempotent:
  "SetFPS v (SetFPS v w) = SetFPS v w \<and>
   (SetFPS v w)\<lparr>timeStep := timeStep w\<rparr> = w \<and>
   trace (SetFPS v (SetFPS v w)) = trace w"
  by (simp add: SetFPS_def)

section \<open>Start and a non-positive frame rate\<close>




section \<open>The 60 frames per second scenario\<close>

text \<open>
  Counterexample to claim C2 as stated: with \<open>maxFPS = 60\<close>, a render step that always
  returns true and refreshes at 0, 8, 17 and 33 ms, the copies are not those at 17 and
  33 ms.
\<close>

theorem scenario_60fps_no_copy_at_33:
  "copy_times [Fin 0, Fin 8, Fin 17, Fin 33] (started (Fin 60) (Some render_always))
     \<noteq> [Fin 17, Fin 33]"
  by (simp add: started_eval run_defs)

text \<open>
  Claim C2 as amended. In that scenario the interval is 50/3 ms and the only render and
  the only copy are at 17 ms: 0 and 8 ms fail the gate against the initial timestamp 0,
  and 33 ms fails it against 17, the gap 16 being below the interval.
\<close>

theorem scenario_60fps_copies_at_17_only:
  "timeStep (started (Fin 60) (Some render_always)) = Fin (50 / 3) \<and>
   copy_times [Fin 0, Fin 8, Fin 17, Fin 33] (started (Fin 60) (Some render_always)) = [Fin 17] \<and>
   render_times [Fin 0, Fin 8, Fin 17, Fin 33] (started (Fin 60) (Some render_always)) = [Fin 17] \<and>
   f64_sub (Fin 33) (Fin 17) = Fin 16 \<and>
   f64_lt (Fin 16) (timeStep (started (Fin 60) (Some render_always)))"
  by (simp add: started_eval run_defs)

section \<open>The transfer buffer\<close>

text \<open>What \<^verbatim>\<open>Set\<close> builds for a surface with positive sides, and what one copy does
  when the three buffers have the frame's length.\<close>

lemma Set_surface:
  assumes "0 < wd" "0 < ht"
  shows "Set cv wd ht w =
           w\<lparr>canvas := Some cv, height := ht, width := wd,
             imgData := Some (replicate (nat (wd * ht * 4)) 0),
             image_px := Some (replicate (nat (wd * ht * 4)) 0),
             copybuff := Some (replicate (nat (wd * ht * 4)) 0),
             trace := trace w @ [GetContext, CreateImageData wd ht,
                                 NewUint8Array (nat (wd * ht * 4))]\<rparr>"
proof -
  have "4 * \<bar>wd\<bar> * \<bar>ht\<bar> = wd * ht * 4"
    using assms by simp
  then show ?thesis
    using assms by (simp add: Set_def NewCanvas_pixels_def createImageData_def Let_def)
qed

lemma imgCopy_fits:
  assumes "copybuff v = Some cb" "image_px v = Some px" "imgData v = Some d"
    "length cb = length px" "length d = length px"
  shows "imgCopy v =
           v\<lparr>copybuff := Some px, imgData := Some px,
             trace := trace v @ [CopyBytesToJS (length px), ImageDataSet px, PutImageData px 0 0]\<rparr>"
  using assms by (simp add: imgCopy_def Let_def)

text \<open>No callback allocates: the render-and-copy block and the next request are its calls.\<close>

lemma fire_no_alloc:
  assumes "\<not> crashed w" and "surface_ok w" and "map_of (pending w) rid = Some k"
    and "k < length (loops w)" and "loops w ! k = Parked rf lastT"
  shows "filter is_alloc (new_events w (fire rid T w)) = []"
proof (cases "f64_ge (f64_sub T lastT) (timeStep w)")
  case True
  from fire_pass [OF assms(1,3,4,5) True assms(2)] obtain body where body:
    "trace (fire rid T w) = trace w @ body @ [RequestAnimationFrame k (nextID w)]"
    "filter is_alloc body = []"
    by (elim conjE exE)
  have "new_events w (fire rid T w) = body @ [RequestAnimationFrame k (nextID w)]"
    using body(1) by (rule new_events_append)
  then show ?thesis
    using body(2) by simp
next
  case False
  have "new_events w (fire rid T w) = [RequestAnimationFrame k (nextID w)]"
    by (rule new_events_append) (simp add: fire_skip [OF assms(1,3,4,5) False])
  then show ?thesis by simp
qed

text \<open>
  Claim C7. \<^verbatim>\<open>Set\<close> on a surface with positive sides allocates exactly one
  \<^verbatim>\<open>Uint8Array\<close>, of the frame's byte length \<open>width * height * 4\<close>, which is also the
  length of the image data. A copy on buffers of the frame's length allocates nothing:
  its calls are \<^verbatim>\<open>CopyBytesToJS\<close> of the whole frame into that buffer,
  \<^verbatim>\<open>data.set\<close> of the buffer into the image data, and \<^verbatim>\<open>putImageData\<close> of the
  whole image data at the origin (0, 0); afterwards the buffer and the image data hold
  the frame's bytes.
\<close>

theorem transfer_buffer_allocated_once_and_reused:
  assumes "0 < wd" and "0 < ht"
    and "copybuff v = Some cb" and "image_px v = Some px" and "imgData v = Some d"
    and "length cb = length px" and "length d = length px"
  shows "map_option length (image_px (Set cv wd ht w)) = Some (nat (wd * ht * 4)) \<and>
         map_option length (copybuff (Set cv wd ht w)) = Some (nat (wd * ht * 4)) \<and>
         map_option length (imgData (Set cv wd ht w)) = Some (nat (wd * ht * 4)) \<and>
         filter is_alloc (new_events w (Set cv wd ht w)) = [NewUint8Array (nat (wd * ht * 4))] \<and>
         new_events v (imgCopy v)
           = [CopyBytesToJS (length px), ImageDataSet px, PutImageData px 0 0] \<and>
         filter is_alloc (new_events v (imgCopy v)) = [] \<and>
         copybuff (imgCopy v) = Some px \<and> imgData (imgCopy v) = Some px \<and>
         image_px (imgCopy v) = Some px \<and> crashed (imgCopy v) = crashed v"
proof -
  note s = Set_surface [OF assms(1,2), of cv w]
  note c = imgCopy_fits [OF assms(3-7)]
  have a: "map_option length (image_px (Set cv wd ht w)) = Some (nat (wd * ht * 4))"
    "map_option length (copybuff (Set cv wd ht w)) = Some (nat (wd * ht * 4))"
    "map_option length (imgData (Set cv wd ht w)) = Some (nat (wd * ht * 4))"
    by (simp_all add: s)
  have b: "filter is_alloc (new_events w (Set cv wd ht w)) = [NewUint8Array (nat (wd * ht * 4))]"
    by (simp add: s new_events_def)
  have e: "new_events v (imgCopy v)
             = [CopyBytesToJS (length px), ImageDataSet px, PutImageData px 0 0]"
    by (simp add: c new_events_def)
  have f: "filter is_alloc (new_events v (imgCopy v)) = []"
    by (simp add: e)
  have g: "copybuff (imgCopy v) = Some px" "imgData (imgCopy v) = Some px"
    "image_px (imgCopy v) = Some px" "crashed (imgCopy v) = crashed v"
    using assms(4) by (simp_all add: c)
  show ?thesis
    using a b e f g by (intro conjI)
qed

text \<open>
  Witness for C7: a surface of 2 by 1 pixels gets a buffer of 8 bytes, and a copy of the
  one-pixel frame 1, 2, 3, 4 moves these bytes through the buffer to the origin.
\<close>

theorem transfer_buffer_allocated_once_and_reused_witness:
  "(0::int) < 2 \<and> (0::int) < 1 \<and>
   copybuff ((started (Fin 60) None)\<lparr>image_px := Some [1, 2, 3, 4]\<rparr>) = Some [0, 0, 0, 0] \<and>
   image_px ((started (Fin 60) None)\<lparr>image_px := Some [1, 2, 3, 4]\<rparr>) = Some [1, 2, 3, 4] \<and>
   imgData ((started (Fin 60) None)\<lparr>image_px := Some [1, 2, 3, 4]\<rparr>) = Some [0, 0, 0, 0] \<and>
   map_option length (copybuff (Set ''canvas'' 2 1 (NewCanvasp False 0 0))) = Some 8 \<and>
   filter is_alloc (new_events (NewCanvasp False 0 0) (Set ''canvas'' 2 1 (NewCanvasp False 0 0)))
     = [NewUint8Array 8] \<and>
   new_events ((started (Fin 60) None)\<lparr>image_px := Some [1, 2, 3, 4]\<rparr>)
       (imgCopy ((started (Fin 60) None)\<lparr>image_px := Some [1, 2, 3, 4]\<rparr>))
     = [CopyBytesToJS 4, ImageDataSet [1, 2, 3, 4], PutImageData [1, 2, 3, 4] 0 0] \<and>
   copybuff (imgCopy ((started (Fin 60) None)\<lparr>image_px := Some [1, 2, 3, 4]\<rparr>))
     = Some [1, 2, 3, 4]"
proof -
  let ?v = "(started (Fin 60) None)\<lparr>image_px := Some [1, 2, 3, 4]\<rparr>"
  have h: "(0::int) < 2" "(0::int) < 1"
    "copybuff ?v = Some [0, 0, 0, 0]" "image_px ?v = Some [1, 2, 3, 4]"
    "imgData ?v = Some [0, 0, 0, 0]"
    "length [0, 0, 0, 0 :: byte] = length [1, 2, 3, 4 :: byte]"
    "length [0, 0, 0, 0 :: byte] = length [1, 2, 3, 4 :: byte]"
    by (simp_all add: started_eval)
  show ?thesis
    using transfer_buffer_allocated_once_and_reused [OF h, of "''canvas''" "NewCanvasp False 0 0"] h
    by simp
qed

section \<open>Stop\<close>

text \<open>No step of the program assigns \<^verbatim>\<open>c.done\<close>, so it stays the nil channel.\<close>

lemma renderFrame_done_chan: "done_chan (renderFrame k rf lastT T w) = done_chan w"
  by (simp add: renderFrame_def render_and_copy_frame requestAnimationFrame_def Let_def)

lemma fire_done_chan: "done_chan (fire rid T w) = done_chan w"
  by (simp add: fire_def renderFrame_done_chan Let_def split: option.splits frameloop.splits)

lemma go_run_done_chan: "done_chan (go_run k w) = done_chan w"
  by (simp add: go_run_def requestAnimationFrame_def exit_loop_def Let_def
      split: frameloop.splits)

lemma Set_done_chan: "done_chan (Set cv wd ht w) = done_chan w"
  by (simp add: Set_def Let_def)

lemma Stop_nil:
  assumes "done_chan w = NilChan"
  shows "Stop w = Blocks (cancelAnimationFrame (reqID w) w)"
  using assms by (simp add: Stop_def cancelAnimationFrame_def Let_def)

lemma reachable_done_nil: "reachable w \<Longrightarrow> done_chan w = NilChan"
proof (induction rule: reachable.induct)
  case (r_new create innerWidth innerHeight)
  show ?case
    by (simp add: NewCanvasp_def Create_def Set_done_chan zero_world_def)
next
  case (r_create w wd ht)
  then show ?case by (simp add: Create_def Set_done_chan)
next
  case (r_set w cv wd ht)
  then show ?case by (simp add: Set_done_chan)
next
  case (r_start w maxFPS rf)
  then show ?case by (simp add: Start_def SetFPS_def initFrameUpdate_def)
next
  case (r_setfps w maxFPS)
  then show ?case by (simp add: SetFPS_def)
next
  case (r_go w k)
  then show ?case by (simp add: go_run_done_chan)
next
  case (r_fire w rid T)
  then show ?case by (simp add: fire_done_chan)
next
  case (r_stop_blocks w w')
  then have "w' = cancelAnimationFrame (reqID w) w"
    by (simp add: Stop_nil)
  then show ?case
    using r_stop_blocks.IH by (simp add: cancelAnimationFrame_def)
next
  case (r_stop_returns w w')
  then show ?case by (simp add: Stop_nil)
qed

text \<open>
  In every reachable state \<^verbatim>\<open>Stop\<close> blocks forever in its send, after the cancel; it
  neither returns nor closes the channel.
\<close>

lemma Stop_blocks_reachable:
  assumes "reachable w"
  shows "Stop w = Blocks (cancelAnimationFrame (reqID w) w) \<and>
         done_chan (cancelAnimationFrame (reqID w) w) = NilChan"
  using reachable_done_nil [OF assms] by (simp add: Stop_nil) (simp add: cancelAnimationFrame_def)

text \<open>
  Once a callback has run, \<^verbatim>\<open>c.reqID\<close> holds the pending request and the cancel in
  \<^verbatim>\<open>Stop\<close> removes it: no callback runs afterwards.
\<close>

lemma Stop_after_callback_cancels:
  assumes "reqID w = Some rid" and "pending w = [(rid, k)]" and "done_chan w = NilChan"
  shows "Stop w = Blocks (cancelAnimationFrame (Some rid) w) \<and>
         pending (cancelAnimationFrame (Some rid) w) = [] \<and>
         tick T (cancelAnimationFrame (Some rid) w) = cancelAnimationFrame (Some rid) w"
  using assms by (simp add: Stop_nil) (simp add: cancelAnimationFrame_def tick_def)

text \<open>
  Had the channel been made, \<^verbatim>\<open>Stop\<close> would return with the channel closed and the
  callback released, and a refresh after it would run no Go code, even for the first
  request that the cancel misses.
\<close>

lemma Stop_with_made_channel:
  "(case Stop ((started (Fin 60) (Some render_always))\<lparr>done_chan := OpenChan\<rparr>) of
      Returns w' \<Rightarrow>
        done_chan w' = ClosedChan \<and> loops w' = [Exited] \<and> pending w' = [(1, 0)] \<and>
        new_events w' (tick (Fin 17) w') = []
    | Blocks w' \<Rightarrow> False
    | Panics w' \<Rightarrow> False)"
  by (simp add: started_eval Stop_def cancelAnimationFrame_def exit_loop_def run_defs)

text \<open>
  Claim C4 fails on the code. \<^verbatim>\<open>Stop\<close> called after \<^verbatim>\<open>Start\<close> and before the first
  refresh cancels nothing, because the id of the first request was never stored in
  \<^verbatim>\<open>c.reqID\<close>, and then blocks in its send on the nil channel, so the callback is
  never released. The first request stays pending; the refresh at 17 ms calls the render
  step, copies the frame and requests the next refresh.
\<close>

theorem Stop_before_first_callback_still_renders:
  "Stop (started (Fin 60) (Some render_always))
     = Blocks (cancelAnimationFrame None (started (Fin 60) (Some render_always))) \<and>
   pending (cancelAnimationFrame None (started (Fin 60) (Some render_always))) = [(1, 0)] \<and>
   new_events (cancelAnimationFrame None (started (Fin 60) (Some render_always)))
       (tick (Fin 17) (cancelAnimationFrame None (started (Fin 60) (Some render_always))))
     = [RenderCall, CopyBytesToJS 4, ImageDataSet [0, 0, 0, 0], PutImageData [0, 0, 0, 0] 0 0,
        RequestAnimationFrame 0 2] \<and>
   pending (tick (Fin 17) (cancelAnimationFrame None (started (Fin 60) (Some render_always))))
     = [(2, 0)]"
  by (simp add: started_eval Stop_def cancelAnimationFrame_def run_defs)

text \<open>
  Claim C8 fails on the code. After one \<^verbatim>\<open>Start\<close> and one callback, the one call of
  \<^verbatim>\<open>Stop\<close> cancels the pending request and then blocks forever in its send on the nil
  channel: it does not return, the channel is not closed and the goroutine stays parked
  with its callback unreleased.
\<close>

theorem Stop_blocks_and_never_closes:
  "Stop (tick (Fin 17) (started (Fin 60) None))
     = Blocks (cancelAnimationFrame (Some 2) (tick (Fin 17) (started (Fin 60) None))) \<and>
   done_chan (cancelAnimationFrame (Some 2) (tick (Fin 17) (started (Fin 60) None))) = NilChan \<and>
   pending (cancelAnimationFrame (Some 2) (tick (Fin 17) (started (Fin 60) None))) = [] \<and>
   loops (cancelAnimationFrame (Some 2) (tick (Fin 17) (started (Fin 60) None)))
     = [Parked None (Fin 17)]"
  by (simp add: started_eval Stop_def cancelAnimationFrame_def run_defs)

end
